theory Spec2Isabelle
  imports Complex_Main "HOL-Library.Log_Nat" "HOL-Library.Word"
begin

section \<open>CardioRetina: asset loading and inference pipeline of \<^verbatim>\<open>app/app.py\<close>\<close>

text \<open>
  The program is one Streamlit script. Its function \<^verbatim>\<open>main\<close> is run once per user
  interaction; \<^verbatim>\<open>load_model_assets\<close> is wrapped by \<^verbatim>\<open>@st.cache_resource\<close>.
  The libraries it calls (json, Keras, PIL, numpy) are not part of the repository. What
  they return in a given run is carried by a record \<open>world\<close>; what they are called with,
  and in which order, is recorded in a trace kept in the process state. Styling and
  widget calls that only draw on the page are left out.
\<close>

subsection \<open>Python floats\<close>

text \<open>
  A Python \<^verbatim>\<open>float\<close> is an IEEE 754 binary64 number. A finite float is modelled by the
  real number it denotes; an arithmetic operation is the exact operation followed by
  \<open>float64\<close>, rounding to the nearest binary64 number, ties to even. All binary64
  numbers are multiples of \<open>2 ^ -1074\<close>; a number with more than 53 significant bits on
  that grid (\<open>bitlen\<close> counts them) loses the low ones. Overflow to infinity (beyond \<open>2 ^ 1024\<close>), NaN and the
  sign of zero are not modelled: the values of this program stay between 0 and 100.
\<close>

definition round_half_even :: "real \<Rightarrow> int" where
  "round_half_even x =
     (let f = \<lfloor>x\<rfloor>; d = x - of_int f
      in if d < 1/2 then f else if 1/2 < d then f + 1 else if even f then f else f + 1)"

definition emin :: nat where
  "emin = 1074"

definition float64 :: "real \<Rightarrow> real" where
  "float64 x =
     (let n = \<bar>x\<bar> * 2 ^ emin;
          k = nat (bitlen \<lfloor>n\<rfloor>) - 53
      in sgn x * of_int (round_half_even (n / 2 ^ k)) * 2 ^ k / 2 ^ emin)"

text \<open>\<^verbatim>\<open>str(n)\<close> for a natural number, and the format specification \<^verbatim>\<open>.1f\<close>: the
  correctly rounded decimal with one digit after the point.\<close>

definition digit_char :: "nat \<Rightarrow> char" where
  "digit_char d = ''0123456789'' ! d"

fun str_nat :: "nat \<Rightarrow> string" where
  "str_nat n = (if n < 10 then [digit_char n] else str_nat (n div 10) @ [digit_char (n mod 10)])"

declare str_nat.simps [simp del]

definition format_1f :: "real \<Rightarrow> string" where
  "format_1f x =
     (let q = nat (round_half_even (\<bar>x\<bar> * 10))
      in (if x < 0 then ''-'' else '''') @ str_nat (q div 10) @ ''.'' @ str_nat (q mod 10))"

subsection \<open>Exceptions\<close>

text \<open>Every exception below is a subclass of \<^verbatim>\<open>Exception\<close>, so \<^verbatim>\<open>except Exception\<close>
  catches each of them.\<close>

datatype exn =
    OSError
  | JSONDecodeError
  | ImportError
  | ValueError
  | AttributeError
  | IndexError
  | UnidentifiedImageError
  | OtherException string

subsection \<open>Images and arrays\<close>

type_synonym uint8 = "8 word"
type_synonym bytes = "uint8 list"
type_synonym rgb = "uint8 \<times> uint8 \<times> uint8"

text \<open>A PIL image: its mode, its size as (width, height), its pixels row by row. A pixel
  of a decoded file is the list of its band values.\<close>

type_synonym pixel = "nat list"

record 'px image =
  im_mode :: string
  im_size :: "nat \<times> nat"
  im_data :: "'px list"

text \<open>A numpy array: its shape and its elements in row-major order.\<close>

record 'a ndarray =
  nd_shape :: "nat list"
  nd_data :: "'a list"

subsection \<open>Keras models, metadata and the outside world\<close>

datatype json =
    JNull
  | JBool bool
  | JNumber real
  | JString string
  | JArray "json list"
  | JObject "(string \<times> json) list"

datatype layer =
    MobileNetV2 (weights: "string option") (include_top: bool) (input_shape: "nat \<times> nat \<times> nat")
  | GlobalAveragePooling2D
  | Dropout real
  | Dense nat string

text \<open>How a model object came to be: deserialised whole by \<^verbatim>\<open>load_model(path, compile=...)\<close>,
  or built as \<^verbatim>\<open>Sequential(layers)\<close> and filled by \<^verbatim>\<open>load_weights(path)\<close>.\<close>

datatype origin =
    From_load_model string bool
  | From_load_weights "layer list" string

text \<open>A model is a Python object: \<open>obj_id\<close> is its identity.\<close>

record keras_model =
  obj_id :: nat
  built :: origin

text \<open>\<^verbatim>\<open>model.predict\<close> returns one array, or a list of arrays for a model with several
  outputs.\<close>

datatype predict_output =
    Array "real ndarray"
  | ArrayList "real ndarray list"

record world =
  BASE_DIR :: string
  json_load :: "string \<Rightarrow> exn + json"
  keras_load_model :: "string \<Rightarrow> bool \<Rightarrow> exn option"
  keras_build :: "layer list \<Rightarrow> exn option"
  keras_load_weights :: "layer list \<Rightarrow> string \<Rightarrow> exn option"
  keras_predict :: "keras_model \<Rightarrow> real ndarray \<Rightarrow> exn + predict_output"
  pil_open :: "bytes \<Rightarrow> exn + pixel image"
  pil_to_rgb :: "string \<Rightarrow> pixel \<Rightarrow> rgb"
  pil_resample :: "rgb image \<Rightarrow> nat \<times> nat \<Rightarrow> nat \<Rightarrow> nat \<Rightarrow> rgb"

text \<open>
  \<^item> \<open>json_load p\<close>: \<^verbatim>\<open>open(p, 'r')\<close> followed by \<^verbatim>\<open>json.load\<close>;
  \<^item> \<open>keras_load_model p c\<close>: the exception raised by
    \<^verbatim>\<open>tf.keras.models.load_model(p, compile=c)\<close>, \<open>None\<close> when it returns;
  \<^item> \<open>keras_build ls\<close>: the exception raised while importing and constructing the layers
    and the \<^verbatim>\<open>Sequential\<close> model, \<open>None\<close> when all of it returns;
  \<^item> \<open>keras_load_weights ls p\<close>: the exception raised by \<^verbatim>\<open>model.load_weights(p)\<close>;
  \<^item> \<open>pil_open\<close>: \<^verbatim>\<open>Image.open\<close> with the decoding of the pixel data;
  \<^item> \<open>pil_to_rgb m\<close>: the conversion of one pixel of mode \<open>m\<close> done by \<^verbatim>\<open>convert("RGB")\<close>;
  \<^item> \<open>pil_resample im sz x y\<close>: the pixel that the resampling filter of \<^verbatim>\<open>resize\<close> puts
    at column \<open>x\<close>, row \<open>y\<close> of the image of size \<open>sz\<close> made from \<open>im\<close>.
\<close>

subsection \<open>Configuration and paths\<close>

definition IMAGE_RES :: "nat \<times> nat" where
  "IMAGE_RES = (224, 224)"

definition MODEL_PATH :: "world \<Rightarrow> string" where
  "MODEL_PATH w = BASE_DIR w @ ''/../models/CardioRetina_Model.keras''"

definition META_PATH :: "world \<Rightarrow> string" where
  "META_PATH w = BASE_DIR w @ ''/../models/model_meta.json''"

subsection \<open>The process state\<close>

datatype call =
    Load_assets_body
  | Json_load string
  | Keras_load_model string bool
  | Keras_build "layer list"
  | Keras_load_weights string
  | St_error exn
  | Pil_open bytes
  | Keras_predict nat "real ndarray"

text \<open>
  \<open>cached_assets\<close> is the entry that \<^verbatim>\<open>st.cache_resource\<close> keeps for
  \<^verbatim>\<open>load_model_assets\<close> (\<open>None\<close>: not computed yet); \<open>next_id\<close> is the identity of the
  next object to be created; \<open>trace\<close> lists the library calls made so far, oldest first;
  \<open>uploader_key\<close> is \<^verbatim>\<open>st.session_state.uploader_key\<close> of the one browser session
  (\<open>None\<close>: not set).
\<close>

record process =
  cached_assets :: "(keras_model option \<times> json option) option"
  next_id :: nat
  trace :: "call list"
  uploader_key :: "nat option"

definition initial_process :: process where
  "initial_process = \<lparr>cached_assets = None, next_id = 0, trace = [], uploader_key = None\<rparr>"

definition log :: "call \<Rightarrow> process \<Rightarrow> process" where
  "log c s = s\<lparr>trace := trace s @ [c]\<rparr>"

definition new_model :: "origin \<Rightarrow> process \<Rightarrow> keras_model \<times> process" where
  "new_model b s = (\<lparr>obj_id = next_id s, built = b\<rparr>, s\<lparr>next_id := Suc (next_id s)\<rparr>)"

subsection \<open>\<^verbatim>\<open>load_model_assets\<close>\<close>

definition fallback_layers :: "layer list" where
  "fallback_layers =
     [MobileNetV2 None False (224, 224, 3), GlobalAveragePooling2D, Dropout (3/10),
      Dense 1 ''sigmoid'']"

text \<open>The inner \<^verbatim>\<open>try\<close> (lines 65 to 72): \<open>Inl e\<close> when an exception leaves it.\<close>

definition load_or_rebuild :: "world \<Rightarrow> process \<Rightarrow> (exn + keras_model) \<times> process" where
  "load_or_rebuild w s =
     (let s1 = log (Keras_load_model (MODEL_PATH w) False) s
      in case keras_load_model w (MODEL_PATH w) False of
           None \<Rightarrow> (let (model, s2) = new_model (From_load_model (MODEL_PATH w) False) s1
                    in (Inr model, s2))
         | Some _ \<Rightarrow>
             (let s2 = log (Keras_build fallback_layers) s1
              in case keras_build w fallback_layers of
                   Some e \<Rightarrow> (Inl e, s2)
                 | None \<Rightarrow>
                     (let (model, s3) =
                            new_model (From_load_weights fallback_layers (MODEL_PATH w)) s2;
                          s4 = log (Keras_load_weights (MODEL_PATH w)) s3
                      in case keras_load_weights w fallback_layers (MODEL_PATH w) of
                           Some e \<Rightarrow> (Inl e, s4)
                         | None \<Rightarrow> (Inr model, s4))))"

text \<open>The body of \<^verbatim>\<open>load_model_assets\<close>, without the decorator.\<close>

definition load_model_assets ::
  "world \<Rightarrow> process \<Rightarrow> (keras_model option \<times> json option) \<times> process" where
  "load_model_assets w s =
     (let s1 = log (Json_load (META_PATH w)) (log Load_assets_body s)
      in case json_load w (META_PATH w) of
           Inl e \<Rightarrow> ((None, None), log (St_error e) s1)
         | Inr meta \<Rightarrow>
             (case load_or_rebuild w s1 of
                (Inl e, s2) \<Rightarrow> ((None, None), log (St_error e) s2)
              | (Inr model, s2) \<Rightarrow> ((Some model, Some meta), s2)))"

text \<open>The decorated function, as \<^verbatim>\<open>main\<close> calls it: \<^verbatim>\<open>st.cache_resource\<close> runs the body
  when it holds no entry and stores what the body returns; otherwise it returns the
  stored object.\<close>

definition cached_load_model_assets ::
  "world \<Rightarrow> process \<Rightarrow> (keras_model option \<times> json option) \<times> process" where
  "cached_load_model_assets w s =
     (case cached_assets s of
        Some r \<Rightarrow> (r, s)
      | None \<Rightarrow> (let (r, s') = load_model_assets w s in (r, s'\<lparr>cached_assets := Some r\<rparr>)))"

subsection \<open>Preprocessing (lines 106 and 109)\<close>

definition convert_RGB :: "world \<Rightarrow> pixel image \<Rightarrow> rgb image" where
  "convert_RGB w im =
     \<lparr>im_mode = ''RGB'', im_size = im_size im,
      im_data = map (pil_to_rgb w (im_mode im)) (im_data im)\<rparr>"

definition resize :: "world \<Rightarrow> rgb image \<Rightarrow> nat \<times> nat \<Rightarrow> rgb image" where
  "resize w im sz =
     \<lparr>im_mode = im_mode im, im_size = sz,
      im_data = concat (map (\<lambda>y. map (\<lambda>x. pil_resample w im sz x y) [0..<fst sz]) [0..<snd sz])\<rparr>"

text \<open>\<^verbatim>\<open>np.array(img)\<close> of an RGB image: shape (height, width, 3), dtype uint8.\<close>

definition np_array :: "rgb image \<Rightarrow> uint8 ndarray" where
  "np_array im =
     \<lparr>nd_shape = [snd (im_size im), fst (im_size im), 3],
      nd_data = concat (map (\<lambda>(r, g, b). [r, g, b]) (im_data im))\<rparr>"

text \<open>\<^verbatim>\<open>a / c\<close> for a uint8 array and a Python float: each element becomes a float64 and
  is divided.\<close>

definition true_divide :: "uint8 ndarray \<Rightarrow> real \<Rightarrow> real ndarray" where
  "true_divide a c =
     \<lparr>nd_shape = nd_shape a, nd_data = map (\<lambda>v. float64 (real (unat v) / c)) (nd_data a)\<rparr>"

text \<open>\<^verbatim>\<open>np.expand_dims(a, axis=0)\<close>.\<close>

definition expand_dims_axis0 :: "'a ndarray \<Rightarrow> 'a ndarray" where
  "expand_dims_axis0 a = \<lparr>nd_shape = 1 # nd_shape a, nd_data = nd_data a\<rparr>"

text \<open>Line 109 after the resize:
  \<^verbatim>\<open>np.expand_dims(np.array(resized) / 255.0, axis=0)\<close>.\<close>

definition to_tensor :: "rgb image \<Rightarrow> real ndarray" where
  "to_tensor resized = expand_dims_axis0 (true_divide (np_array resized) 255)"

definition processed_img :: "world \<Rightarrow> rgb image \<Rightarrow> real ndarray" where
  "processed_img w img = to_tensor (resize w img IMAGE_RES)"

subsection \<open>Inference and risk classification (lines 110 to 126)\<close>

text \<open>\<^verbatim>\<open>float(out.flatten()[0])\<close>: a list has no \<^verbatim>\<open>flatten\<close>; index 0 of an empty array is
  out of bounds.\<close>

definition first_scalar :: "predict_output \<Rightarrow> exn + real" where
  "first_scalar out =
     (case out of
        ArrayList _ \<Rightarrow> Inl AttributeError
      | Array a \<Rightarrow> (case nd_data a of [] \<Rightarrow> Inl IndexError | x # _ \<Rightarrow> Inr x))"

datatype advisory = Warning | Success

record result =
  res_prediction :: real
  res_is_high :: bool
  res_label :: string
  res_status_class :: string
  res_percent :: string
  res_advisory :: advisory

definition classify :: "real \<Rightarrow> result" where
  "classify prediction =
     (let is_high = (1/2 < prediction)
      in \<lparr>res_prediction = prediction,
          res_is_high = is_high,
          res_label = (if is_high then ''high risk'' else ''low risk''),
          res_status_class = (if is_high then ''risk-high-text'' else ''risk-low-text''),
          res_percent = format_1f (float64 (prediction * 100)),
          res_advisory = (if is_high then Warning else Success)\<rparr>)"

subsection \<open>\<^verbatim>\<open>main\<close> and \<^verbatim>\<open>handle_restart\<close>\<close>

text \<open>What one run of the script shows: the upload prompt only, or a classification. An
  exception that leaves \<^verbatim>\<open>main\<close> is \<open>Inl\<close>.\<close>

datatype page = No_result | Classified result

definition handle_restart :: "process \<Rightarrow> process" where
  "handle_restart s = s\<lparr>uploader_key := map_option Suc (uploader_key s)\<rparr>"

text \<open>Lines 85 and 86.\<close>

definition ensure_uploader_key :: "process \<Rightarrow> process" where
  "ensure_uploader_key s = (if uploader_key s = None then s\<lparr>uploader_key := Some 0\<rparr> else s)"

text \<open>The body of \<^verbatim>\<open>if file and model:\<close> (lines 105 to 128).\<close>

definition classify_upload ::
  "world \<Rightarrow> keras_model \<Rightarrow> bytes \<Rightarrow> process \<Rightarrow> (exn + page) \<times> process" where
  "classify_upload w m f s =
     (let s1 = log (Pil_open f) s
      in case pil_open w f of
           Inl e \<Rightarrow> (Inl e, s1)
         | Inr im \<Rightarrow>
             (let img = convert_RGB w im;
                  processed = processed_img w img;
                  s2 = log (Keras_predict (obj_id m) processed) s1
              in case keras_predict w m processed of
                   Inl e \<Rightarrow> (Inl e, s2)
                 | Inr out \<Rightarrow>
                     (case first_scalar out of
                        Inl e \<Rightarrow> (Inl e, s2)
                      | Inr prediction \<Rightarrow> (Inr (Classified (classify prediction)), s2))))"

definition main :: "world \<Rightarrow> bytes option \<Rightarrow> process \<Rightarrow> (exn + page) \<times> process" where
  "main w file s =
     (let ((model, _), s1) = cached_load_model_assets w s;
          s2 = ensure_uploader_key s1
      in case (file, model) of
           (Some f, Some m) \<Rightarrow> classify_upload w m f s2
         | _ \<Rightarrow> (Inr No_result, s2))"

text \<open>A process serves one request after the other; each request comes with the file in
  the uploader (if any) and the state of the outside world at that moment.\<close>

fun serve :: "(world \<times> bytes option) list \<Rightarrow> process \<Rightarrow> (exn + page) list \<times> process" where
  "serve [] s = ([], s)"
| "serve ((w, file) # reqs) s =
     (let (out, s1) = main w file s; (outs, s2) = serve reqs s1 in (out # outs, s2))"

subsection \<open>Reading the trace\<close>

text \<open>The library calls made between an earlier state and a later one.\<close>

definition new_calls :: "process \<Rightarrow> process \<Rightarrow> call list" where
  "new_calls s s' = drop (length (trace s)) (trace s')"

text \<open>The calls that only the loader makes, after it has entered its body.\<close>

fun loader_call :: "call \<Rightarrow> bool" where
  "loader_call (Pil_open _) = False"
| "loader_call (Keras_predict _ _) = False"
| "loader_call Load_assets_body = False"
| "loader_call _ = True"

subsection \<open>A world for the examples\<close>

text \<open>
  The metadata file is readable; the model file holds weights only, so that
  \<^verbatim>\<open>load_model\<close> raises and the rebuilt architecture loads; every non-empty upload decodes
  to one gray pixel of value 128, an empty one does not decode; the resampling filter
  repeats the top left pixel; the model answers 0.9 to everything. \<open>broken_world\<close> differs
  by an unreadable metadata file.
\<close>

definition gray_image :: "pixel image" where
  "gray_image = \<lparr>im_mode = ''L'', im_size = (1, 1), im_data = [[128]]\<rparr>"

definition example_world :: world where
  "example_world =
     \<lparr>BASE_DIR = ''/srv/app'',
      json_load = (\<lambda>_. Inr (JObject [(''version'', JString ''1'')])),
      keras_load_model = (\<lambda>_ _. Some ValueError),
      keras_build = (\<lambda>_. None),
      keras_load_weights = (\<lambda>_ _. None),
      keras_predict = (\<lambda>_ _. Inr (Array \<lparr>nd_shape = [1, 1], nd_data = [9/10]\<rparr>)),
      pil_open = (\<lambda>b. if b = [] then Inl UnidentifiedImageError else Inr gray_image),
      pil_to_rgb = (\<lambda>_ px. (of_nat (hd px), of_nat (hd px), of_nat (hd px))),
      pil_resample = (\<lambda>im _ _ _. hd (im_data im))\<rparr>"

definition broken_world :: world where
  "broken_world = example_world\<lparr>json_load := (\<lambda>_. Inl OSError)\<rparr>"

section \<open>Facts about the model\<close>

subsection \<open>Rounding\<close>

lemma round_half_even_cases: "round_half_even x = \<lfloor>x\<rfloor> \<or> round_half_even x = \<lfloor>x\<rfloor> + 1"
  by (simp add: round_half_even_def Let_def)

lemma round_half_even_of_int [simp]: "round_half_even (of_int m) = m"
  by (simp add: round_half_even_def)

lemma round_half_even_numeral [simp]: "round_half_even (numeral m) = numeral m"
  using round_half_even_of_int [of "numeral m"] by simp

lemma round_half_even_zero [simp]: "round_half_even 0 = 0"
  using round_half_even_of_int [of 0] by simp

lemma round_half_even_nonneg: "0 \<le> x \<Longrightarrow> 0 \<le> round_half_even x"
  using round_half_even_cases [of x] by (auto simp: zero_le_floor)

lemma round_half_even_le:
  assumes "x \<le> of_int m" shows "round_half_even x \<le> m"
proof (cases "x = of_int \<lfloor>x\<rfloor>")
  case True
  then have "round_half_even x = \<lfloor>x\<rfloor>" by (metis round_half_even_of_int)
  with assms show ?thesis by (simp add: floor_le_iff)
next
  case False
  then have "of_int \<lfloor>x\<rfloor> < x" using of_int_floor_le [of x] by linarith
  with assms have "real_of_int \<lfloor>x\<rfloor> < of_int m" by linarith
  then have "\<lfloor>x\<rfloor> < m" by (simp only: of_int_less_iff)
  then show ?thesis using round_half_even_cases [of x] by auto
qed

lemma round_half_even_error: "\<bar>of_int (round_half_even x) - x\<bar> \<le> 1/2"
  unfolding round_half_even_def Let_def by (auto simp: abs_if; linarith)

text \<open>The bit length of a natural number, as \<open>floorlog\<close>.\<close>

lemma float64_alt:
  "float64 x =
     (let n = \<bar>x\<bar> * 2 ^ emin;
          k = floorlog 2 (nat \<lfloor>n\<rfloor>) - 53
      in sgn x * of_int (round_half_even (n / 2 ^ k)) * 2 ^ k / 2 ^ emin)"
  by (simp add: float64_def bitlen_def)

lemma float64_zero [simp]: "float64 0 = 0"
  by (simp add: float64_alt)

lemma float64_nonneg: "0 \<le> x \<Longrightarrow> 0 \<le> float64 x"
  by (simp add: float64_alt Let_def round_half_even_nonneg sgn_if)

text \<open>The exponent chosen for a value below \<open>2 ^ j\<close>.\<close>

lemma float64_shift_le:
  assumes "0 \<le> x" "x < 2 ^ j"
  shows "floorlog 2 (nat \<lfloor>x * 2 ^ emin\<rfloor>) - 53 \<le> emin + j - 53"
proof -
  have "x * 2 ^ emin < of_int (2 ^ (emin + j))"
    using assms by (simp add: power_add mult.commute mult_strict_left_mono)
  then have "\<lfloor>x * 2 ^ emin\<rfloor> < 2 ^ (emin + j)" by (simp only: floor_less_iff)
  then have "nat \<lfloor>x * 2 ^ emin\<rfloor> < 2 ^ (emin + j)" by (simp add: nat_less_iff)
  then have "floorlog 2 (nat \<lfloor>x * 2 ^ emin\<rfloor>) \<le> emin + j" by (simp add: floorlog_le_iff)
  then show ?thesis by simp
qed

lemma float64_le_nat:
  assumes "0 \<le> x" "x \<le> of_nat m" "m < 2 ^ 53"
  shows "float64 x \<le> of_nat m"
proof -
  define n where "n = \<bar>x\<bar> * 2 ^ emin"
  define k where "k = floorlog 2 (nat \<lfloor>n\<rfloor>) - 53"
  have "x < 2 ^ 53"
  proof -
    have "real m < 2 ^ 53" using assms(3) by (metis of_nat_less_iff of_nat_numeral of_nat_power)
    with assms(2) show ?thesis by linarith
  qed
  then have "k \<le> emin + 53 - 53"
    unfolding k_def n_def using assms(1) float64_shift_le [of x 53] by simp
  then have k_le: "k \<le> emin" by simp
  then have pw: "(2::real) ^ emin = 2 ^ (emin - k) * 2 ^ k"
    by (simp flip: power_add)
  have "n \<le> real m * 2 ^ emin" using assms by (simp add: n_def)
  then have "n / 2 ^ k \<le> of_int (int m * 2 ^ (emin - k))"
    by (simp add: pw divide_le_eq)
  then have "round_half_even (n / 2 ^ k) \<le> int m * 2 ^ (emin - k)" by (rule round_half_even_le)
  then have "real_of_int (round_half_even (n / 2 ^ k)) \<le> of_int (int m * 2 ^ (emin - k))"
    by (simp only: of_int_le_iff)
  then have "real_of_int (round_half_even (n / 2 ^ k)) * 2 ^ k \<le> real m * 2 ^ emin"
    unfolding pw by (simp add: mult_right_mono)
  moreover have "sgn x = 0 \<or> sgn x = 1" using assms(1) by (auto simp: sgn_if)
  ultimately show ?thesis
    unfolding float64_alt Let_def n_def [symmetric] k_def [symmetric]
    by (auto simp: divide_le_eq)
qed

lemma float64_error:
  assumes "0 \<le> x" "x < 2 ^ j" "53 \<le> emin + j"
  shows "\<bar>float64 x - x\<bar> * 2 ^ (emin + 1) \<le> 2 ^ (emin + j - 53)"
proof -
  define n where "n = \<bar>x\<bar> * 2 ^ emin"
  define k where "k = floorlog 2 (nat \<lfloor>n\<rfloor>) - 53"
  define r where "r = real_of_int (round_half_even (n / 2 ^ k))"
  have k_le: "k \<le> emin + j - 53"
    unfolding k_def n_def using assms float64_shift_le [of x j] by simp
  have n_eq: "n = x * 2 ^ emin" using assms(1) by (simp add: n_def)
  have "\<bar>r - n / 2 ^ k\<bar> \<le> 1/2" unfolding r_def by (rule round_half_even_error)
  then have "\<bar>r - n / 2 ^ k\<bar> * 2 ^ k \<le> 1/2 * 2 ^ k" by (rule mult_right_mono) simp
  moreover have "\<bar>r - n / 2 ^ k\<bar> * 2 ^ k = \<bar>(r - n / 2 ^ k) * 2 ^ k\<bar>"
    by (rule abs_mult_pos) simp
  moreover have "(r - n / 2 ^ k) * 2 ^ k = r * 2 ^ k - n" by (simp add: left_diff_distrib)
  ultimately have e1: "\<bar>r * 2 ^ k - n\<bar> * 2 \<le> 2 ^ k" by simp
  have "(2::real) ^ k \<le> 2 ^ (emin + j - 53)" using k_le by simp
  with e1 have e2: "\<bar>r * 2 ^ k - n\<bar> * 2 \<le> 2 ^ (emin + j - 53)" by linarith
  have f: "float64 x = (if x = 0 then 0 else r * 2 ^ k / 2 ^ emin)"
    unfolding float64_alt Let_def n_def [symmetric] k_def [symmetric] r_def
    using assms(1) by (simp add: sgn_if)
  show ?thesis
  proof (cases "x = 0")
    case True
    then show ?thesis by simp
  next
    case False
    then have "float64 x - x = (r * 2 ^ k - n) / 2 ^ emin"
      by (simp add: f n_eq diff_divide_distrib)
    then have "\<bar>float64 x - x\<bar> * 2 ^ (emin + 1) = \<bar>r * 2 ^ k - n\<bar> * 2"
      by (simp add: abs_divide)
    with e2 show ?thesis by simp
  qed
qed


text \<open>A value whose 53 leading bits start at bit \<open>e\<close> below the point is rounded on the
  grid of multiples of \<open>2 ^ -e\<close>.\<close>

lemma float64_normal:
  fixes e :: nat
  assumes "2 ^ 52 \<le> x * 2 ^ e" "x * 2 ^ e < 2 ^ 53" "e \<le> emin"
  shows "float64 x = of_int (round_half_even (x * 2 ^ e)) / 2 ^ e"
proof -
  have xpos: "0 < x"
  proof (rule ccontr)
    assume "\<not> 0 < x"
    then have "x * 2 ^ e \<le> 0" by (simp add: mult_le_0_iff)
    moreover have "(0::real) < 2 ^ 52" by simp
    ultimately show False using assms(1) by linarith
  qed
  define n where "n = \<bar>x\<bar> * 2 ^ emin"
  define k where "k = floorlog 2 (nat \<lfloor>n\<rfloor>) - 53"
  define d where "d = emin - e"
  have pw: "(2::real) ^ emin = 2 ^ e * 2 ^ d"
    using assms(3) by (simp add: d_def flip: power_add)
  have n_eq: "n = (x * 2 ^ e) * 2 ^ d" using xpos by (simp add: n_def pw)
  have "(2::real) ^ 52 * 2 ^ d \<le> n"
    unfolding n_eq using assms(1) by (rule mult_right_mono) simp
  then have lo: "of_int (2 ^ (52 + d)) \<le> n" by (simp add: power_add)
  have "n < 2 ^ 53 * 2 ^ d"
    unfolding n_eq using assms(2) by (rule mult_strict_right_mono) simp
  then have hi: "n < of_int (2 ^ (53 + d))" by (simp add: power_add)
  have "(2::int) ^ (52 + d) \<le> \<lfloor>n\<rfloor>" using lo by (simp only: le_floor_iff)
  then have "nat (2 ^ (52 + d)) \<le> nat \<lfloor>n\<rfloor>" by (rule nat_mono)
  then have lo': "2 ^ (52 + d) \<le> nat \<lfloor>n\<rfloor>" by (simp add: nat_power_eq)
  have "\<lfloor>n\<rfloor> < 2 ^ (53 + d)" using hi by (simp only: floor_less_iff)
  then have hi': "nat \<lfloor>n\<rfloor> < 2 ^ (53 + d)" by (simp add: nat_less_iff)
  have "floorlog 2 (nat \<lfloor>n\<rfloor>) = 53 + d"
  proof (rule antisym)
    show "floorlog 2 (nat \<lfloor>n\<rfloor>) \<le> 53 + d" using hi' by (simp add: floorlog_le_iff)
    show "53 + d \<le> floorlog 2 (nat \<lfloor>n\<rfloor>)"
      using floorlog_ge_SucI [of 2 "52 + d" "nat \<lfloor>n\<rfloor>"] lo' by simp
  qed
  then have k_eq: "k = d" by (simp add: k_def)
  have "n / 2 ^ k = x * 2 ^ e" by (simp add: n_eq k_eq)
  then show ?thesis
    unfolding float64_alt Let_def n_def [symmetric] k_def [symmetric]
    using xpos by (simp add: k_eq pw)
qed

lemma emin_ge: "46 \<le> emin" "52 \<le> emin" "53 \<le> emin"
  by (simp_all add: emin_def)

lemma float64_one: "float64 1 = 1"
  using float64_normal [where x = 1 and e = 52] by (simp add: emin_ge)

lemma float64_hundred: "float64 100 = 100"
  using float64_normal [where x = 100 and e = 46] by (simp add: emin_ge)

text \<open>The product \<open>p * 100\<close> of a probability is rounded by less than \<open>2 ^ -47\<close>.\<close>

lemma float64_percent_error:
  assumes "0 \<le> p" "p \<le> 1"
  shows "\<bar>float64 (p * 100) - p * 100\<bar> \<le> 1 / 2 ^ 47"
proof -
  have "p * 100 < 2 ^ 7" using assms by simp
  moreover have "0 \<le> p * 100" using assms by simp
  ultimately have "\<bar>float64 (p * 100) - p * 100\<bar> * 2 ^ (emin + 1) \<le> 2 ^ (emin + 7 - 53)"
    using emin_ge by (intro float64_error) simp_all
  moreover have "emin + 7 - 53 = emin - 46" by simp
  moreover have "(2::real) ^ (emin + 1) = 2 ^ (emin - 46) * 2 ^ 47"
    using emin_ge(1) by (simp only: flip: power_add) simp
  ultimately have "\<bar>float64 (p * 100) - p * 100\<bar> * (2 ^ (emin - 46) * 2 ^ 47) \<le> 2 ^ (emin - 46)"
    by simp
  then have "(\<bar>float64 (p * 100) - p * 100\<bar> * 2 ^ 47) * 2 ^ (emin - 46) \<le> 1 * 2 ^ (emin - 46)"
    by (simp only: mult.assoc mult.commute mult.left_commute mult_1)
  then have "\<bar>float64 (p * 100) - p * 100\<bar> * 2 ^ 47 \<le> 1"
    by (rule mult_right_le_imp_le) simp
  then show ?thesis by (simp only: pos_le_divide_eq zero_less_power zero_less_numeral)
qed

lemma float64_percent_bounds:
  assumes "0 \<le> p" "p \<le> 1"
  shows "0 \<le> float64 (p * 100)" "float64 (p * 100) \<le> 100"
proof -
  show "0 \<le> float64 (p * 100)" using assms by (intro float64_nonneg) simp
  have "float64 (p * 100) \<le> of_nat 100" using assms by (intro float64_le_nat) simp_all
  then show "float64 (p * 100) \<le> 100" by simp
qed

subsection \<open>Decimal strings and the values used in the examples\<close>

lemma str_nat_digit: "n < 10 \<Longrightarrow> str_nat n = [digit_char n]"
  by (simp add: str_nat.simps)

lemma str_nat_numeral:
  "str_nat (numeral k) =
     (if (numeral k :: nat) < 10 then [digit_char (numeral k)]
      else str_nat (numeral k div 10) @ [digit_char (numeral k mod 10)])"
  by (rule str_nat.simps)

lemma str_nat_0: "str_nat 0 = ''0''"
  by (simp add: str_nat.simps digit_char_def)

lemma str_nat_1: "str_nat (Suc 0) = ''1''"
  using str_nat.simps [of "Suc 0"] by (simp add: digit_char_def)

lemmas str_nat_eval = str_nat_numeral str_nat_0 str_nat_1 digit_char_def

text \<open>The Python literals \<^verbatim>\<open>0.8854\<close> and \<^verbatim>\<open>0.5000001\<close> as binary64 numbers, and the
  product \<^verbatim>\<open>0.8854 * 100\<close>, which is \<^verbatim>\<open>88.53999999999999\<close>.\<close>

lemma float64_08854: "float64 (8854/10000) = 7974974220147674 / 2 ^ 53"
  by (subst float64_normal [where e = 53]) (simp_all add: round_half_even_def emin_ge)

lemma float64_08854_100: "float64 (7974974220147674 / 2 ^ 53 * 100) = 6230448609490370 / 2 ^ 46"
  by (subst float64_normal [where e = 46]) (simp_all add: round_half_even_def emin_ge)

lemma float64_05000001: "float64 (5000001/10000000) = 4503600528090421 / 2 ^ 53"
  by (subst float64_normal [where e = 53]) (simp_all add: round_half_even_def emin_ge)

lemma format_1f_88_5: "format_1f (6230448609490370 / 2 ^ 46) = ''88.5''"
  by (simp add: format_1f_def round_half_even_def str_nat_eval)

lemma format_1f_100: "format_1f 100 = ''100.0''"
  by (simp add: format_1f_def str_nat_eval)

lemma format_1f_0: "format_1f 0 = ''0.0''"
  by (simp add: format_1f_def str_nat_eval)

lemma res_percent_classify: "res_percent (classify p) = format_1f (float64 (p * 100))"
  by (simp add: classify_def Let_def)

section \<open>Risk classification\<close>

text \<open>
  Claim C1. For every probability \<open>p\<close> the classifier sets \<open>is_high\<close> to \<open>p > 0.5\<close>, with
  strict inequality: a probability of at most one half, so \<open>0.5\<close> itself, is labelled
  "low risk", and every probability above one half is labelled "high risk". The
  comparison of two floats is the comparison of the numbers they denote.
\<close>

theorem risk_threshold_strict:
  "res_is_high (classify p) = (1/2 < p)
   \<and> (p \<le> 1/2 \<longrightarrow> res_label (classify p) = ''low risk'')
   \<and> (1/2 < p \<longrightarrow> res_label (classify p) = ''high risk'')"
  by (simp add: classify_def Let_def)

text \<open>At the boundary \<open>0.5\<close> and at the float written \<^verbatim>\<open>0.5000001\<close>.\<close>

theorem risk_threshold_strict_witness:
  "res_label (classify (1/2)) = ''low risk''
   \<and> \<not> res_is_high (classify (1/2))
   \<and> res_is_high (classify (float64 (5000001/10000000)))
   \<and> res_label (classify (float64 (5000001/10000000))) = ''high risk''"
  using risk_threshold_strict [of "1/2"] risk_threshold_strict [of "float64 (5000001/10000000)"]
  by (simp add: float64_05000001)

text \<open>
  Claim C6. For every probability \<open>p\<close> in [0, 1] the displayed percentage is a decimal
  with exactly one digit after the point: it is \<open>q / 10\<close> written out, for a natural number
  \<open>q\<close> of tenths, at most 1000, that is nearest to \<open>p * 100\<close> (up to the rounding of the
  float product, less than \<open>2 ^ -47\<close>). The float \<^verbatim>\<open>0.8854\<close> is shown as "88.5", \<open>0.0\<close> as
  "0.0" and \<open>1.0\<close> as "100.0".
\<close>

theorem percent_one_decimal:
  "(0 \<le> p \<and> p \<le> 1 \<longrightarrow>
      (\<exists>q. q \<le> 1000
         \<and> res_percent (classify p) = str_nat (q div 10) @ ''.'' @ [digit_char (q mod 10)]
         \<and> \<bar>real q / 10 - p * 100\<bar> \<le> 1/20 + 1 / 2 ^ 47))
   \<and> res_percent (classify (float64 (8854/10000))) = ''88.5''
   \<and> res_percent (classify 0) = ''0.0''
   \<and> res_percent (classify 1) = ''100.0''"
proof (intro conjI impI)
  assume p: "0 \<le> p \<and> p \<le> 1"
  define x where "x = float64 (p * 100)"
  define q where "q = nat (round_half_even (x * 10))"
  have x0: "0 \<le> x" and x100: "x \<le> 100"
    using p float64_percent_bounds [of p] by (simp_all add: x_def)
  have "x * 10 \<le> of_int 1000" using x100 by simp
  then have r_le: "round_half_even (x * 10) \<le> 1000" by (rule round_half_even_le)
  have r_ge: "0 \<le> round_half_even (x * 10)" using x0 by (intro round_half_even_nonneg) simp
  have q_le: "q \<le> 1000" using r_le r_ge by (simp add: q_def)
  have q_real: "real q = of_int (round_half_even (x * 10))" using r_ge by (simp add: q_def)
  have "\<bar>real q - x * 10\<bar> \<le> 1/2" unfolding q_real by (rule round_half_even_error)
  then have "\<bar>real q / 10 - x\<bar> \<le> 1/20" by (simp add: abs_if split: if_splits)
  moreover have "\<bar>x - p * 100\<bar> \<le> 1 / 2 ^ 47"
    unfolding x_def using p by (intro float64_percent_error) simp_all
  ultimately have close: "\<bar>real q / 10 - p * 100\<bar> \<le> 1/20 + 1 / 2 ^ 47" by linarith
  have "format_1f x = str_nat (q div 10) @ ''.'' @ [digit_char (q mod 10)]"
    using x0 by (simp add: format_1f_def Let_def q_def abs_of_nonneg str_nat_digit)
  then have "res_percent (classify p) = str_nat (q div 10) @ ''.'' @ [digit_char (q mod 10)]"
    by (simp add: classify_def Let_def x_def)
  with q_le close
  show "\<exists>q. q \<le> 1000
         \<and> res_percent (classify p) = str_nat (q div 10) @ ''.'' @ [digit_char (q mod 10)]
         \<and> \<bar>real q / 10 - p * 100\<bar> \<le> 1/20 + 1 / 2 ^ 47"
    by blast
next
  show "res_percent (classify (float64 (8854/10000))) = ''88.5''"
    by (simp only: res_percent_classify float64_08854 float64_08854_100 format_1f_88_5)
next
  show "res_percent (classify 0) = ''0.0''"
    by (simp add: res_percent_classify format_1f_0)
next
  show "res_percent (classify 1) = ''100.0''"
    by (simp add: res_percent_classify float64_hundred format_1f_100)
qed

text \<open>At \<open>p = 0.25\<close>, a float.\<close>

theorem percent_one_decimal_witness:
  "\<exists>q. q \<le> 1000
     \<and> res_percent (classify (1/4)) = str_nat (q div 10) @ ''.'' @ [digit_char (q mod 10)]
     \<and> \<bar>real q / 10 - 1/4 * 100\<bar> \<le> 1/20 + 1 / 2 ^ 47"
  using percent_one_decimal [of "1/4"] by simp

section \<open>Inference\<close>

text \<open>An output of shape (1, 2) is not refused: its first element becomes the
  prediction.\<close>

theorem first_scalar_accepts_two_elements:
  "first_scalar (Array \<lparr>nd_shape = [1, 2], nd_data = [9/10, 1/10]\<rparr>) = Inr (9/10)"
  by (simp add: first_scalar_def)

text \<open>
  Claim C4, amended. The scalar taken from the model's output is the first element of
  the flattened output array. The extraction fails only in two cases: the output array
  is empty (IndexError), or the output is a list of arrays (AttributeError). An output
  with more than one element is accepted and all but its first element are ignored.
\<close>

theorem first_scalar_first_element:
  "(first_scalar out = Inr x \<longleftrightarrow> (\<exists>a. out = Array a \<and> nd_data a \<noteq> [] \<and> x = hd (nd_data a)))
   \<and> (first_scalar out = Inl e \<longleftrightarrow>
         (\<exists>a. out = Array a \<and> nd_data a = [] \<and> e = IndexError)
         \<or> (\<exists>as. out = ArrayList as \<and> e = AttributeError))"
  by (auto simp: first_scalar_def split: predict_output.splits list.splits)

theorem first_scalar_first_element_witness:
  "first_scalar (Array \<lparr>nd_shape = [1, 1], nd_data = [7/10]\<rparr>) = Inr (7/10)
   \<and> first_scalar (Array \<lparr>nd_shape = [1, 0], nd_data = []\<rparr>) = Inl IndexError"
  using first_scalar_first_element [of "Array \<lparr>nd_shape = [1, 1], nd_data = [7/10]\<rparr>" "7/10" IndexError]
    first_scalar_first_element [of "Array \<lparr>nd_shape = [1, 0], nd_data = []\<rparr>" 0 IndexError]
  by simp

section \<open>Preprocessing\<close>

lemma length_concat_rows:
  "length (concat (map (\<lambda>y. map (f y) [0..<W]) ys)) = length ys * W"
  by (induction ys) simp_all

lemma length_resize: "length (im_data (resize w im (W, H))) = H * W"
  by (simp add: resize_def length_concat_rows)

lemma length_np_array: "length (nd_data (np_array im)) = 3 * length (im_data im)"
proof -
  have "length (concat (map (\<lambda>(r, g, b). [r, g, b]) ps)) = 3 * length ps" for ps :: "rgb list"
    by (induction ps) auto
  then show ?thesis by (simp add: np_array_def)
qed

lemma nd_shape_to_tensor:
  "nd_shape (to_tensor im) = [1, snd (im_size im), fst (im_size im), 3]"
  by (simp add: to_tensor_def expand_dims_axis0_def true_divide_def np_array_def)

lemma length_to_tensor: "length (nd_data (to_tensor im)) = 3 * length (im_data im)"
  by (simp add: to_tensor_def expand_dims_axis0_def true_divide_def length_np_array)

lemma nd_shape_processed_img: "nd_shape (processed_img w img) = [1, 224, 224, 3]"
  by (simp add: processed_img_def nd_shape_to_tensor resize_def IMAGE_RES_def)

lemma length_processed_img: "length (nd_data (processed_img w img)) = 150528"
  by (simp add: processed_img_def length_to_tensor length_resize IMAGE_RES_def)

lemma byte_over_255:
  fixes u :: nat
  assumes "u < 256"
  shows "0 \<le> float64 (real u / 255)" "float64 (real u / 255) \<le> 1"
proof -
  have le: "real u / 255 \<le> 1" using assms by simp
  show "0 \<le> float64 (real u / 255)" by (intro float64_nonneg) simp
  have "float64 (real u / 255) \<le> of_nat 1" using le by (intro float64_le_nat) simp_all
  then show "float64 (real u / 255) \<le> 1" by simp
qed

lemma uint8_over_255:
  fixes v :: uint8
  shows "0 \<le> float64 (real (unat v) / 255) \<and> float64 (real (unat v) / 255) \<le> 1"
proof -
  have "unat v < 256" using unsigned_less [of v, where ?'a = nat] by simp
  then show ?thesis by (intro conjI byte_over_255)
qed

lemma to_tensor_range:
  assumes "x \<in> set (nd_data (to_tensor im))"
  shows "0 \<le> x \<and> x \<le> 1"
proof -
  from assms obtain v :: uint8 where "x = float64 (real (unat v) / 255)"
    by (auto simp: to_tensor_def expand_dims_axis0_def true_divide_def)
  then show ?thesis using uint8_over_255 [of v] by (simp only:)
qed

text \<open>
  Claim C2. For every decoded image, whatever its size and mode, converting it to RGB,
  resizing it to \<open>IMAGE_RES\<close>, dividing by 255 and adding the batch axis gives an array of
  shape (1, 224, 224, 3), with as many elements as the shape says, each between 0.0 and
  1.0.
\<close>

theorem preprocessing_shape_and_range:
  "nd_shape (processed_img w (convert_RGB w im)) = [1, 224, 224, 3]
   \<and> length (nd_data (processed_img w (convert_RGB w im))) = 1 * 224 * 224 * 3
   \<and> (\<forall>x \<in> set (nd_data (processed_img w (convert_RGB w im))). 0 \<le> x \<and> x \<le> 1)"
  by (simp add: nd_shape_processed_img length_processed_img)
     (simp add: processed_img_def to_tensor_range)

text \<open>For the gray pixel of the examples every element is the float \<^verbatim>\<open>128 / 255.0\<close>.\<close>

lemma example_data:
  "set (nd_data (processed_img example_world (convert_RGB example_world gray_image)))
     = {float64 (128/255)}"
  by (simp add: processed_img_def to_tensor_def expand_dims_axis0_def true_divide_def
      np_array_def resize_def convert_RGB_def example_world_def gray_image_def IMAGE_RES_def
      image_constant_conv)

theorem preprocessing_shape_and_range_witness:
  "nd_shape (processed_img example_world (convert_RGB example_world gray_image)) = [1, 224, 224, 3]
   \<and> float64 (128/255) \<in> set (nd_data (processed_img example_world (convert_RGB example_world gray_image)))
   \<and> 0 \<le> float64 (128/255) \<and> float64 (128/255) \<le> 1"
  using preprocessing_shape_and_range [of example_world gray_image]
  by (simp add: example_data)

section \<open>The loader, the cache and \<^verbatim>\<open>main\<close>\<close>

lemma log_simps [simp]:
  "trace (log c s) = trace s @ [c]"
  "cached_assets (log c s) = cached_assets s"
  "next_id (log c s) = next_id s"
  "uploader_key (log c s) = uploader_key s"
  by (simp_all add: log_def)

lemma new_model_simps [simp]:
  "fst (new_model b s) = \<lparr>obj_id = next_id s, built = b\<rparr>"
  "trace (snd (new_model b s)) = trace s"
  "cached_assets (snd (new_model b s)) = cached_assets s"
  "next_id (snd (new_model b s)) = Suc (next_id s)"
  "uploader_key (snd (new_model b s)) = uploader_key s"
  by (simp_all add: new_model_def)

lemma new_calls_append [simp]: "trace s' = trace s @ tr \<Longrightarrow> new_calls s s' = tr"
  by (simp add: new_calls_def)

text \<open>The inner try, case by case.\<close>

lemma load_or_rebuild_direct:
  assumes "keras_load_model w (MODEL_PATH w) False = None"
  shows "fst (load_or_rebuild w s) = Inr \<lparr>obj_id = next_id s, built = From_load_model (MODEL_PATH w) False\<rparr>"
    and "trace (snd (load_or_rebuild w s)) = trace s @ [Keras_load_model (MODEL_PATH w) False]"
  using assms by (simp_all add: load_or_rebuild_def Let_def split_beta)

lemma load_or_rebuild_build_fails:
  assumes "keras_load_model w (MODEL_PATH w) False = Some e0" "keras_build w fallback_layers = Some e"
  shows "fst (load_or_rebuild w s) = Inl e"
    and "trace (snd (load_or_rebuild w s)) =
           trace s @ [Keras_load_model (MODEL_PATH w) False, Keras_build fallback_layers]"
  using assms by (simp_all add: load_or_rebuild_def Let_def split_beta)

lemma load_or_rebuild_weights_fail:
  assumes "keras_load_model w (MODEL_PATH w) False = Some e0" "keras_build w fallback_layers = None"
    "keras_load_weights w fallback_layers (MODEL_PATH w) = Some e"
  shows "fst (load_or_rebuild w s) = Inl e"
    and "trace (snd (load_or_rebuild w s)) =
           trace s @ [Keras_load_model (MODEL_PATH w) False, Keras_build fallback_layers,
                      Keras_load_weights (MODEL_PATH w)]"
  using assms by (simp_all add: load_or_rebuild_def Let_def split_beta)

lemma load_or_rebuild_fallback:
  assumes "keras_load_model w (MODEL_PATH w) False = Some e0" "keras_build w fallback_layers = None"
    "keras_load_weights w fallback_layers (MODEL_PATH w) = None"
  shows "fst (load_or_rebuild w s) =
           Inr \<lparr>obj_id = next_id s, built = From_load_weights fallback_layers (MODEL_PATH w)\<rparr>"
    and "trace (snd (load_or_rebuild w s)) =
           trace s @ [Keras_load_model (MODEL_PATH w) False, Keras_build fallback_layers,
                      Keras_load_weights (MODEL_PATH w)]"
  using assms by (simp_all add: load_or_rebuild_def Let_def split_beta)

lemma load_or_rebuild_cached [simp]:
  "cached_assets (snd (load_or_rebuild w s)) = cached_assets s"
  "uploader_key (snd (load_or_rebuild w s)) = uploader_key s"
  by (simp_all add: load_or_rebuild_def Let_def split_beta split: option.splits)

lemma load_or_rebuild_calls:
  "\<exists>tr. trace (snd (load_or_rebuild w s)) = trace s @ tr \<and> list_all loader_call tr"
  by (simp add: load_or_rebuild_def Let_def split_beta split: option.splits)

lemma load_model_assets_calls:
  "\<exists>tr. trace (snd (load_model_assets w s)) = trace s @ Load_assets_body # tr
        \<and> list_all loader_call tr"
proof (cases "json_load w (META_PATH w)")
  case (Inl e)
  then show ?thesis by (simp add: load_model_assets_def Let_def)
next
  case (Inr meta)
  obtain tr where tr: "trace (snd (load_or_rebuild w (log (Json_load (META_PATH w)) (log Load_assets_body s))))
      = trace (log (Json_load (META_PATH w)) (log Load_assets_body s)) @ tr" "list_all loader_call tr"
    using load_or_rebuild_calls by blast
  show ?thesis
    using Inr tr
    by (cases "load_or_rebuild w (log (Json_load (META_PATH w)) (log Load_assets_body s))")
       (auto simp: load_model_assets_def Let_def split: sum.splits)
qed

lemma load_model_assets_cached [simp]:
  "cached_assets (snd (load_model_assets w s)) = cached_assets s"
  "uploader_key (snd (load_model_assets w s)) = uploader_key s"
proof -
  let ?s1 = "log (Json_load (META_PATH w)) (log Load_assets_body s)"
  obtain r s2 where r: "load_or_rebuild w ?s1 = (r, s2)" by (cases "load_or_rebuild w ?s1")
  then have "s2 = snd (load_or_rebuild w ?s1)" by simp
  then have s2: "cached_assets s2 = cached_assets s" "uploader_key s2 = uploader_key s" by simp_all
  show "cached_assets (snd (load_model_assets w s)) = cached_assets s"
    using r s2 by (simp add: load_model_assets_def Let_def split: sum.splits)
  show "uploader_key (snd (load_model_assets w s)) = uploader_key s"
    using r s2 by (simp add: load_model_assets_def Let_def split: sum.splits)
qed


lemma cached_hit: "cached_assets s = Some r \<Longrightarrow> cached_load_model_assets w s = (r, s)"
  by (simp add: cached_load_model_assets_def)

lemma cached_miss:
  "cached_assets s = None \<Longrightarrow>
   cached_load_model_assets w s =
     (fst (load_model_assets w s),
      (snd (load_model_assets w s))\<lparr>cached_assets := Some (fst (load_model_assets w s))\<rparr>)"
  by (simp add: cached_load_model_assets_def split_beta)

lemma cached_assets_after:
  "cached_assets (snd (cached_load_model_assets w s)) = Some (fst (cached_load_model_assets w s))"
  by (cases "cached_assets s") (simp_all add: cached_hit cached_miss)

lemma cached_calls:
  "\<exists>tr. trace (snd (cached_load_model_assets w s)) = trace s @ tr
        \<and> list_all loader_call (filter (\<lambda>c. c \<noteq> Load_assets_body) tr)
        \<and> count_list tr Load_assets_body = (if cached_assets s = None then 1 else 0)"
proof (cases "cached_assets s")
  case None
  obtain tr where tr: "trace (snd (load_model_assets w s)) = trace s @ Load_assets_body # tr"
      "list_all loader_call tr"
    using load_model_assets_calls by blast
  have "filter (\<lambda>c. c \<noteq> Load_assets_body) tr = tr"
    using tr(2) by (induction tr) auto
  moreover have "count_list tr Load_assets_body = 0"
    using tr(2) by (induction tr) auto
  ultimately show ?thesis using None tr by (simp add: cached_miss)
next
  case (Some r)
  then show ?thesis by (simp add: cached_hit)
qed

lemma ensure_uploader_key_simps [simp]:
  "trace (ensure_uploader_key s) = trace s"
  "cached_assets (ensure_uploader_key s) = cached_assets s"
  "next_id (ensure_uploader_key s) = next_id s"
  by (simp_all add: ensure_uploader_key_def)

lemma classify_upload_cached [simp]:
  "cached_assets (snd (classify_upload w m f s)) = cached_assets s"
  by (simp add: classify_upload_def Let_def split: sum.splits)

lemma classify_upload_trace:
  "trace (snd (classify_upload w m f s)) =
     trace s @ Pil_open f #
       (case pil_open w f of
          Inl e \<Rightarrow> []
        | Inr im \<Rightarrow> [Keras_predict (obj_id m) (processed_img w (convert_RGB w im))])"
  by (simp add: classify_upload_def Let_def split: sum.splits)

lemma classify_upload_success:
  assumes "pil_open w f = Inr im"
    "keras_predict w m (processed_img w (convert_RGB w im)) = Inr (Array a)"
    "nd_data a = x # xs"
  shows "fst (classify_upload w m f s) = Inr (Classified (classify x))"
  using assms by (simp add: classify_upload_def Let_def first_scalar_def)

text \<open>\<^verbatim>\<open>main\<close>, by the model that the accessor returns.\<close>

lemma main_without_model:
  assumes "fst (fst (cached_load_model_assets w s)) = None"
  shows "main w file s = (Inr No_result, ensure_uploader_key (snd (cached_load_model_assets w s)))"
  using assms by (simp add: main_def split_beta Let_def split: option.splits)

lemma main_without_file:
  "main w None s = (Inr No_result, ensure_uploader_key (snd (cached_load_model_assets w s)))"
  by (simp add: main_def split_beta Let_def)

lemma main_with_model:
  assumes "fst (fst (cached_load_model_assets w s)) = Some m"
  shows "main w (Some f) s =
           classify_upload w m f (ensure_uploader_key (snd (cached_load_model_assets w s)))"
  using assms by (simp add: main_def split_beta Let_def)

lemma main_cached_assets:
  "cached_assets (snd (main w file s)) = Some (fst (cached_load_model_assets w s))"
proof (cases "fst (fst (cached_load_model_assets w s))")
  case None
  then show ?thesis by (simp add: main_without_model cached_assets_after)
next
  case (Some m)
  then show ?thesis
    by (cases "file") (simp_all add: main_without_file main_with_model cached_assets_after)
qed

lemma main_cached_assets_kept:
  "cached_assets s = Some r \<Longrightarrow> cached_assets (snd (main w file s)) = Some r"
  by (simp add: main_cached_assets cached_hit)

text \<open>The calls of one run of \<^verbatim>\<open>main\<close>: those of the accessor, then those of the
  classification branch, if it is taken.\<close>

lemma main_trace:
  "trace (snd (main w file s)) =
     trace (snd (cached_load_model_assets w s)) @
       (case (file, fst (fst (cached_load_model_assets w s))) of
          (Some f, Some m) \<Rightarrow>
            Pil_open f #
              (case pil_open w f of
                 Inl e \<Rightarrow> []
               | Inr im \<Rightarrow> [Keras_predict (obj_id m) (processed_img w (convert_RGB w im))])
        | _ \<Rightarrow> [])"
proof (cases "fst (fst (cached_load_model_assets w s))")
  case None
  then show ?thesis by (simp add: main_without_model split: option.splits)
next
  case (Some m)
  then show ?thesis
    by (cases "file") (simp_all add: main_without_file main_with_model classify_upload_trace)
qed

section \<open>What reaches the model\<close>

lemma loader_call_not_predict:
  "list_all loader_call (filter (\<lambda>c. c \<noteq> Load_assets_body) tr) \<Longrightarrow> Keras_predict i t \<notin> set tr"
  by (induction tr) (auto split: if_splits)

lemma loader_call_not_open:
  "list_all loader_call (filter (\<lambda>c. c \<noteq> Load_assets_body) tr) \<Longrightarrow> Pil_open f \<notin> set tr"
  by (induction tr) (auto split: if_splits)

lemma cached_no_predict:
  "Keras_predict i t \<in> set (trace (snd (cached_load_model_assets w s)))
   \<Longrightarrow> Keras_predict i t \<in> set (trace s)"
  using cached_calls [of w s] loader_call_not_predict by fastforce

lemma cached_no_open:
  "Pil_open f \<in> set (trace (snd (cached_load_model_assets w s)))
   \<Longrightarrow> Pil_open f \<in> set (trace s)"
  using cached_calls [of w s] loader_call_not_open by fastforce

lemma main_predict_calls:
  assumes "Keras_predict i t \<in> set (trace (snd (main w file s)))"
    and "Keras_predict i t \<notin> set (trace s)"
  shows "\<exists>f im m. file = Some f \<and> pil_open w f = Inr im
           \<and> fst (fst (cached_load_model_assets w s)) = Some m
           \<and> i = obj_id m \<and> t = processed_img w (convert_RGB w im)"
proof -
  let ?A = "cached_load_model_assets w s"
  have notA: "Keras_predict i t \<notin> set (trace (snd ?A))"
    using assms(2) cached_no_predict by blast
  show ?thesis
  proof (cases "file")
    case None
    with assms(1) notA show ?thesis by (simp add: main_without_file)
  next
    case (Some f)
    show ?thesis
    proof (cases "fst (fst ?A)")
      case None
      with assms(1) notA show ?thesis by (simp add: main_without_model)
    next
      case m: (Some m)
      show ?thesis
      proof (cases "pil_open w f")
        case (Inl e)
        with assms(1) notA Some m show ?thesis
          by (simp add: main_with_model classify_upload_trace)
      next
        case (Inr im)
        with assms(1) notA Some m show ?thesis
          by (simp add: main_with_model classify_upload_trace)
      qed
    qed
  qed
qed





text \<open>The first request of a process in the example world: the assets are loaded by
  the fallback, the upload is decoded and classified.\<close>

lemma example_first_request:
  "trace (snd (main example_world (Some [1]) initial_process)) =
     [Load_assets_body, Json_load (META_PATH example_world),
      Keras_load_model (MODEL_PATH example_world) False, Keras_build fallback_layers,
      Keras_load_weights (MODEL_PATH example_world), Pil_open [1],
      Keras_predict 0 (processed_img example_world (convert_RGB example_world gray_image))]"
  by (simp add: main_def cached_load_model_assets_def load_model_assets_def load_or_rebuild_def
      classify_upload_def ensure_uploader_key_def new_model_def log_def initial_process_def
      first_scalar_def example_world_def Let_def)


text \<open>The assets that the first accessor call of a process loads in the example world.\<close>

lemma example_assets:
  "fst (cached_load_model_assets example_world initial_process) =
     (Some \<lparr>obj_id = 0, built = From_load_weights fallback_layers (MODEL_PATH example_world)\<rparr>,
      Some (JObject [(''version'', JString ''1'')]))"
  by (simp add: cached_load_model_assets_def load_model_assets_def load_or_rebuild_def
      new_model_def log_def initial_process_def example_world_def Let_def)

section \<open>Loading order and fallback\<close>

lemma load_model_assets_meta_fails:
  assumes "json_load w (META_PATH w) = Inl e"
  shows "fst (load_model_assets w s) = (None, None)"
    and "trace (snd (load_model_assets w s)) =
           trace s @ [Load_assets_body, Json_load (META_PATH w), St_error e]"
  using assms by (simp_all add: load_model_assets_def Let_def)

lemma load_model_assets_inner:
  assumes "json_load w (META_PATH w) = Inr meta"
  shows "fst (load_model_assets w s) =
           (case fst (load_or_rebuild w (log (Json_load (META_PATH w)) (log Load_assets_body s))) of
              Inl e \<Rightarrow> (None, None) | Inr model \<Rightarrow> (Some model, Some meta))"
    and "trace (snd (load_model_assets w s)) =
           trace (snd (load_or_rebuild w (log (Json_load (META_PATH w)) (log Load_assets_body s)))) @
           (case fst (load_or_rebuild w (log (Json_load (META_PATH w)) (log Load_assets_body s))) of
              Inl e \<Rightarrow> [St_error e] | Inr model \<Rightarrow> [])"
  using assms
  by (simp_all add: load_model_assets_def Let_def split_beta split: sum.splits prod.splits)

text \<open>
  Claim C3. Once the metadata is read, the first thing the loader does with the model file
  is \<^verbatim>\<open>load_model(MODEL_PATH, compile=False)\<close>. If that returns, nothing else is called
  and its model is the asset. If it raises, and only then, the loader builds the fixed
  fallback (MobileNetV2 without pretrained weights and without its top, global average
  pooling, dropout, one dense unit with sigmoid activation) and calls \<^verbatim>\<open>load_weights\<close> on
  the same path; the asset is then that rebuilt model.
\<close>

theorem direct_load_then_fallback:
  assumes "json_load w (META_PATH w) = Inr meta"
  shows "(keras_load_model w (MODEL_PATH w) False = None \<longrightarrow>
            new_calls s (snd (load_model_assets w s)) =
              [Load_assets_body, Json_load (META_PATH w), Keras_load_model (MODEL_PATH w) False]
            \<and> fst (load_model_assets w s) =
                (Some \<lparr>obj_id = next_id s, built = From_load_model (MODEL_PATH w) False\<rparr>, Some meta))
       \<and> (keras_load_model w (MODEL_PATH w) False \<noteq> None \<longrightarrow>
            take 4 (new_calls s (snd (load_model_assets w s))) =
              [Load_assets_body, Json_load (META_PATH w), Keras_load_model (MODEL_PATH w) False,
               Keras_build [MobileNetV2 None False (224, 224, 3), GlobalAveragePooling2D,
                            Dropout (3/10), Dense 1 ''sigmoid'']]
            \<and> (keras_build w fallback_layers = None \<longrightarrow>
                 take 5 (new_calls s (snd (load_model_assets w s))) =
                   [Load_assets_body, Json_load (META_PATH w),
                    Keras_load_model (MODEL_PATH w) False, Keras_build fallback_layers,
                    Keras_load_weights (MODEL_PATH w)]
                 \<and> (keras_load_weights w fallback_layers (MODEL_PATH w) = None \<longrightarrow>
                      fst (load_model_assets w s) =
                        (Some \<lparr>obj_id = next_id s,
                               built = From_load_weights
                                 [MobileNetV2 None False (224, 224, 3), GlobalAveragePooling2D,
                                  Dropout (3/10), Dense 1 ''sigmoid''] (MODEL_PATH w)\<rparr>,
                         Some meta))))"
proof -
  let ?s1 = "log (Json_load (META_PATH w)) (log Load_assets_body s)"
  note inner = load_model_assets_inner [OF assms, of s]
  have direct: ?thesis if "keras_load_model w (MODEL_PATH w) False = None"
    using that inner load_or_rebuild_direct [OF that, of ?s1] by simp
  have fallback: ?thesis if e0: "keras_load_model w (MODEL_PATH w) False = Some e0" for e0
  proof (cases "keras_build w fallback_layers")
    case (Some e)
    show ?thesis
      using e0 Some inner load_or_rebuild_build_fails [OF e0 Some, of ?s1]
      by (simp add: fallback_layers_def)
  next
    case None
    show ?thesis
    proof (cases "keras_load_weights w fallback_layers (MODEL_PATH w)")
      case (Some e)
      show ?thesis
        using e0 None Some inner load_or_rebuild_weights_fail [OF e0 None Some, of ?s1]
        by (simp add: fallback_layers_def)
    next
      case lw: None
      show ?thesis
        using e0 None lw inner load_or_rebuild_fallback [OF e0 None lw, of ?s1]
        by (simp add: fallback_layers_def)
    qed
  qed
  show ?thesis
    using direct fallback by (cases "keras_load_model w (MODEL_PATH w) False") blast+
qed

text \<open>In the example world the direct load fails and the fallback is used; with a
  loadable model file three calls are made and the fallback is not built.\<close>

theorem direct_load_then_fallback_witness:
  "new_calls initial_process (snd (load_model_assets example_world initial_process)) =
     [Load_assets_body, Json_load ''/srv/app/../models/model_meta.json'',
      Keras_load_model ''/srv/app/../models/CardioRetina_Model.keras'' False,
      Keras_build fallback_layers,
      Keras_load_weights ''/srv/app/../models/CardioRetina_Model.keras'']
   \<and> fst (load_model_assets example_world initial_process) =
       (Some \<lparr>obj_id = 0,
              built = From_load_weights
                [MobileNetV2 None False (224, 224, 3), GlobalAveragePooling2D,
                 Dropout (3/10), Dense 1 ''sigmoid'']
                ''/srv/app/../models/CardioRetina_Model.keras''\<rparr>,
        Some (JObject [(''version'', JString ''1'')]))
   \<and> new_calls initial_process
        (snd (load_model_assets (example_world\<lparr>keras_load_model := (\<lambda>_ _. None)\<rparr>) initial_process)) =
     [Load_assets_body, Json_load ''/srv/app/../models/model_meta.json'',
      Keras_load_model ''/srv/app/../models/CardioRetina_Model.keras'' False]"
proof -
  have j: "json_load example_world (META_PATH example_world) = Inr (JObject [(''version'', JString ''1'')])"
    by (simp add: example_world_def)
  have j': "json_load (example_world\<lparr>keras_load_model := (\<lambda>_ _. None)\<rparr>)
      (META_PATH (example_world\<lparr>keras_load_model := (\<lambda>_ _. None)\<rparr>)) = Inr (JObject [(''version'', JString ''1'')])"
    by (simp add: example_world_def)
  have len: "length (new_calls initial_process (snd (load_model_assets example_world initial_process))) = 5"
    by (simp add: new_calls_def load_model_assets_def load_or_rebuild_def new_model_def log_def
        initial_process_def example_world_def Let_def)
  show ?thesis
    using direct_load_then_fallback [OF j, of initial_process]
      direct_load_then_fallback [OF j', of initial_process] len
    by (simp add: example_world_def MODEL_PATH_def META_PATH_def initial_process_def)
qed

section \<open>Caching\<close>

lemma main_load_count:
  "count_list (trace (snd (main w file s))) Load_assets_body =
     count_list (trace s) Load_assets_body + (if cached_assets s = None then 1 else 0)"
proof -
  obtain tr where tr: "trace (snd (cached_load_model_assets w s)) = trace s @ tr"
    "count_list tr Load_assets_body = (if cached_assets s = None then 1 else 0)"
    using cached_calls [of w s] by blast
  then show ?thesis
    by (simp add: main_trace split: option.splits sum.splits)
qed

lemma serve_load_count_cached:
  "cached_assets s \<noteq> None \<Longrightarrow>
   count_list (trace (snd (serve reqs s))) Load_assets_body = count_list (trace s) Load_assets_body"
proof (induction reqs arbitrary: s)
  case Nil
  then show ?case by simp
next
  case (Cons req reqs)
  obtain w "file" where req: "req = (w, file)" by (cases req)
  have "cached_assets (snd (main w file s)) \<noteq> None" by (simp add: main_cached_assets)
  then have "count_list (trace (snd (serve reqs (snd (main w file s))))) Load_assets_body
      = count_list (trace (snd (main w file s))) Load_assets_body"
    by (rule Cons.IH)
  with Cons.prems show ?case by (simp add: req split_beta main_load_count)
qed

lemma serve_load_count:
  "count_list (trace (snd (serve reqs initial_process))) Load_assets_body \<le> 1"
proof (cases reqs)
  case Nil
  then show ?thesis by (simp add: initial_process_def)
next
  case (Cons req reqs')
  obtain w "file" where req: "req = (w, file)" by (cases req)
  have "cached_assets (snd (main w file initial_process)) \<noteq> None" by (simp add: main_cached_assets)
  then have "count_list (trace (snd (serve reqs' (snd (main w file initial_process))))) Load_assets_body
      = count_list (trace (snd (main w file initial_process))) Load_assets_body"
    by (rule serve_load_count_cached)
  then show ?thesis
    by (simp add: Cons req split_beta main_load_count) (simp add: initial_process_def)
qed

text \<open>Once the cache holds an entry, every later prediction is made on the model of
  that entry.\<close>

lemma serve_same_model:
  assumes "cached_assets s = Some r"
    and "\<forall>m. fst r = Some m \<longrightarrow> obj_id m = k"
    and "\<forall>i t. Keras_predict i t \<in> set (trace s) \<longrightarrow> i = k"
  shows "\<forall>i t. Keras_predict i t \<in> set (trace (snd (serve reqs s))) \<longrightarrow> i = k"
  using assms
proof (induction reqs arbitrary: s)
  case Nil
  then show ?case by simp
next
  case (Cons req reqs)
  obtain w "file" where req: "req = (w, file)" by (cases req)
  have hit: "cached_load_model_assets w s = (r, s)" using Cons.prems(1) by (rule cached_hit)
  have c: "cached_assets (snd (main w file s)) = Some r"
    using Cons.prems(1) by (rule main_cached_assets_kept)
  have p: "\<forall>i t. Keras_predict i t \<in> set (trace (snd (main w file s))) \<longrightarrow> i = k"
  proof (intro allI impI)
    fix i t
    assume in_new: "Keras_predict i t \<in> set (trace (snd (main w file s)))"
    show "i = k"
    proof (cases "Keras_predict i t \<in> set (trace s)")
      case True
      with Cons.prems(3) show ?thesis by blast
    next
      case False
      with in_new obtain m where "fst (fst (cached_load_model_assets w s)) = Some m" "i = obj_id m"
        using main_predict_calls by blast
      with hit Cons.prems(2) show ?thesis by simp
    qed
  qed
  have "\<forall>i t. Keras_predict i t \<in> set (trace (snd (serve reqs (snd (main w file s))))) \<longrightarrow> i = k"
    using c Cons.prems(2) p by (rule Cons.IH)
  then show ?case by (simp add: req split_beta)
qed

lemma serve_one_model:
  "\<exists>k. \<forall>i t. Keras_predict i t \<in> set (trace (snd (serve reqs initial_process))) \<longrightarrow> i = k"
proof (cases reqs)
  case Nil
  then show ?thesis by (simp add: initial_process_def)
next
  case (Cons req reqs')
  obtain w "file" where req: "req = (w, file)" by (cases req)
  let ?r = "fst (cached_load_model_assets w initial_process)"
  let ?s1 = "snd (main w file initial_process)"
  define k where "k = (case fst ?r of Some m \<Rightarrow> obj_id m | None \<Rightarrow> 0)"
  have c: "cached_assets ?s1 = Some ?r" by (rule main_cached_assets)
  have m: "\<forall>m. fst ?r = Some m \<longrightarrow> obj_id m = k" by (simp add: k_def)
  have p: "\<forall>i t. Keras_predict i t \<in> set (trace ?s1) \<longrightarrow> i = k"
  proof (intro allI impI)
    fix i t
    assume in_new: "Keras_predict i t \<in> set (trace ?s1)"
    have "Keras_predict i t \<notin> set (trace initial_process)" by (simp add: initial_process_def)
    with in_new obtain m where "fst ?r = Some m" "i = obj_id m"
      using main_predict_calls by blast
    then show "i = k" by (simp add: k_def)
  qed
  have "\<forall>i t. Keras_predict i t \<in> set (trace (snd (serve reqs' ?s1))) \<longrightarrow> i = k"
    using c m p by (rule serve_same_model)
  then show ?thesis by (auto simp: Cons req split_beta)
qed

text \<open>
  Claim C5. Two consecutive calls of the accessor return the same pair, so the same model
  object (same \<open>obj_id\<close>), and the second call changes nothing and calls nothing. In a
  process that serves any list of requests the body of \<^verbatim>\<open>load_model_assets\<close> is entered at
  most once, and all predictions are made on one and the same model object. Requests are
  served one after the other; two threads inside the first call are outside this model.
\<close>

theorem assets_loaded_once:
  "fst (cached_load_model_assets w2 (snd (cached_load_model_assets w1 s)))
     = fst (cached_load_model_assets w1 s)
   \<and> snd (cached_load_model_assets w2 (snd (cached_load_model_assets w1 s)))
     = snd (cached_load_model_assets w1 s)
   \<and> count_list (trace (snd (serve reqs initial_process))) Load_assets_body \<le> 1
   \<and> (\<exists>k. \<forall>i t. Keras_predict i t \<in> set (trace (snd (serve reqs initial_process))) \<longrightarrow> i = k)"
proof -
  have "cached_load_model_assets w2 (snd (cached_load_model_assets w1 s))
      = (fst (cached_load_model_assets w1 s), snd (cached_load_model_assets w1 s))"
    using cached_assets_after by (rule cached_hit)
  then show ?thesis using serve_load_count serve_one_model by simp
qed

lemma example_second_request:
  "trace (snd (serve [(example_world, Some [1]), (example_world, Some [2])] initial_process)) =
     [Load_assets_body, Json_load (META_PATH example_world),
      Keras_load_model (MODEL_PATH example_world) False, Keras_build fallback_layers,
      Keras_load_weights (MODEL_PATH example_world), Pil_open [1],
      Keras_predict 0 (processed_img example_world (convert_RGB example_world gray_image)),
      Pil_open [2],
      Keras_predict 0 (processed_img example_world (convert_RGB example_world gray_image))]"
proof -
  let ?s1 = "snd (main example_world (Some [1]) initial_process)"
  have "cached_assets ?s1 = Some (fst (cached_load_model_assets example_world initial_process))"
    by (rule main_cached_assets)
  then have hit: "cached_load_model_assets example_world ?s1 =
      (fst (cached_load_model_assets example_world initial_process), ?s1)"
    by (rule cached_hit)
  have "trace (snd (main example_world (Some [2]) ?s1)) =
      trace ?s1 @ [Pil_open [2],
        Keras_predict 0 (processed_img example_world (convert_RGB example_world gray_image))]"
    by (simp add: main_trace hit example_assets) (simp add: example_world_def)
  then show ?thesis by (simp add: split_beta example_first_request)
qed

theorem assets_loaded_once_witness:
  "count_list (trace (snd (serve [(example_world, Some [1]), (example_world, Some [2])]
      initial_process))) Load_assets_body = 1
   \<and> fst (cached_load_model_assets broken_world
            (snd (cached_load_model_assets example_world initial_process)))
       = (Some \<lparr>obj_id = 0, built = From_load_weights fallback_layers (MODEL_PATH example_world)\<rparr>,
          Some (JObject [(''version'', JString ''1'')]))"
proof -
  have "count_list (trace (snd (serve [(example_world, Some [1]), (example_world, Some [2])]
      initial_process))) Load_assets_body = 1"
    unfolding example_second_request by simp
  then show ?thesis
    using assets_loaded_once [of broken_world example_world initial_process
      "[(example_world, Some [1]), (example_world, Some [2])]"]
    by (simp add: example_assets del: serve.simps)
qed

section \<open>Failure isolation\<close>

text \<open>Identity is more than equality: each run of the undecorated body makes a new
  object.\<close>

lemma load_or_rebuild_fresh:
  assumes "fst (load_or_rebuild w s) = Inr m"
  shows "obj_id m = next_id s \<and> next_id (snd (load_or_rebuild w s)) = Suc (next_id s)"
  using assms
  by (auto simp: load_or_rebuild_def new_model_def log_def Let_def split: option.splits)

lemma load_model_assets_fresh:
  assumes "fst (fst (load_model_assets w s)) = Some m"
  shows "obj_id m = next_id s \<and> next_id (snd (load_model_assets w s)) = Suc (next_id s)"
proof -
  let ?s1 = "log (Json_load (META_PATH w)) (log Load_assets_body s)"
  obtain r s2 where r: "load_or_rebuild w ?s1 = (r, s2)" by (cases "load_or_rebuild w ?s1")
  from assms r have "r = Inr m"
    by (simp add: load_model_assets_def Let_def split: sum.splits)
  then have "obj_id m = next_id ?s1 \<and> next_id s2 = Suc (next_id ?s1)"
    using load_or_rebuild_fresh [of w ?s1 m] r by simp
  with assms r show ?thesis
    by (simp add: load_model_assets_def Let_def split: sum.splits)
qed

lemma uncached_runs_differ:
  assumes "fst (fst (load_model_assets w s)) = Some m1"
    and "fst (fst (load_model_assets w' (snd (load_model_assets w s)))) = Some m2"
  shows "obj_id m1 \<noteq> obj_id m2"
  using load_model_assets_fresh [OF assms(1)] load_model_assets_fresh [OF assms(2)] by simp

lemma main_failure_has_model:
  assumes "fst (main w (Some f) s) = Inl e"
  shows "\<exists>m. fst (fst (cached_load_model_assets w s)) = Some m"
proof (cases "fst (fst (cached_load_model_assets w s))")
  case None
  with assms show ?thesis by (simp add: main_without_model)
next
  case (Some m)
  then show ?thesis by blast
qed

text \<open>
  Claim C9. When a request fails with an exception (the image does not decode, or
  anything later in the request raises), the cache holds after the request the very
  assets the request used, unchanged if they were cached before; and a later request whose
  image decodes and whose forward pass returns a non-empty array is classified, by a
  prediction on that same model object and without entering the loader.
\<close>

theorem failure_isolation:
  assumes "fst (main w1 (Some f1) s) = Inl e"
  shows "\<exists>m mt.
           fst (cached_load_model_assets w1 s) = (Some m, mt)
         \<and> cached_assets (snd (main w1 (Some f1) s)) = Some (Some m, mt)
         \<and> (cached_assets s \<noteq> None \<longrightarrow> cached_assets (snd (main w1 (Some f1) s)) = cached_assets s)
         \<and> (\<forall>w2 f2 im a x xs.
               pil_open w2 f2 = Inr im
               \<and> keras_predict w2 m (processed_img w2 (convert_RGB w2 im)) = Inr (Array a)
               \<and> nd_data a = x # xs \<longrightarrow>
               fst (main w2 (Some f2) (snd (main w1 (Some f1) s))) = Inr (Classified (classify x))
               \<and> new_calls (snd (main w1 (Some f1) s))
                    (snd (main w2 (Some f2) (snd (main w1 (Some f1) s)))) =
                   [Pil_open f2, Keras_predict (obj_id m) (processed_img w2 (convert_RGB w2 im))]
               \<and> cached_assets (snd (main w2 (Some f2) (snd (main w1 (Some f1) s))))
                   = Some (Some m, mt))"
proof -
  let ?s1 = "snd (main w1 (Some f1) s)"
  obtain m where m: "fst (fst (cached_load_model_assets w1 s)) = Some m"
    using main_failure_has_model [OF assms] by blast
  define mt where "mt = snd (fst (cached_load_model_assets w1 s))"
  have r: "fst (cached_load_model_assets w1 s) = (Some m, mt)"
    using m by (simp add: mt_def prod_eq_iff)
  have c1: "cached_assets ?s1 = Some (Some m, mt)"
    using main_cached_assets [of w1 "Some f1" s] r by simp
  have kept: "cached_assets s \<noteq> None \<longrightarrow> cached_assets ?s1 = cached_assets s"
    using main_cached_assets_kept [of s _ w1 "Some f1"] by auto
  have later: "fst (main w2 (Some f2) ?s1) = Inr (Classified (classify x))
      \<and> new_calls ?s1 (snd (main w2 (Some f2) ?s1)) =
          [Pil_open f2, Keras_predict (obj_id m) (processed_img w2 (convert_RGB w2 im))]
      \<and> cached_assets (snd (main w2 (Some f2) ?s1)) = Some (Some m, mt)"
    if ok: "pil_open w2 f2 = Inr im"
      "keras_predict w2 m (processed_img w2 (convert_RGB w2 im)) = Inr (Array a)"
      "nd_data a = x # xs"
    for w2 f2 im a x xs
  proof -
    have hit: "cached_load_model_assets w2 ?s1 = ((Some m, mt), ?s1)"
      using c1 by (rule cached_hit)
    have "main w2 (Some f2) ?s1 = classify_upload w2 m f2 (ensure_uploader_key ?s1)"
      using main_with_model [of w2 ?s1 m f2] by (simp add: hit)
    moreover have "trace (snd (main w2 (Some f2) ?s1)) = trace ?s1 @
        [Pil_open f2, Keras_predict (obj_id m) (processed_img w2 (convert_RGB w2 im))]"
      using ok(1) by (simp add: main_trace hit)
    ultimately show ?thesis
      using ok c1 by (simp add: classify_upload_success main_cached_assets_kept)
  qed
  show ?thesis
    using r c1 kept later by blast
qed

theorem failure_isolation_witness:
  "fst (main example_world (Some []) initial_process) = Inl UnidentifiedImageError
   \<and> fst (main example_world (Some [1]) (snd (main example_world (Some []) initial_process)))
       = Inr (Classified (classify (9/10)))
   \<and> cached_assets (snd (main example_world (Some []) initial_process))
       = Some (Some \<lparr>obj_id = 0, built = From_load_weights fallback_layers (MODEL_PATH example_world)\<rparr>,
               Some (JObject [(''version'', JString ''1'')]))"
proof -
  have f: "fst (main example_world (Some []) initial_process) = Inl UnidentifiedImageError"
    by (simp add: main_with_model [where m = "\<lparr>obj_id = 0, built = From_load_weights fallback_layers (MODEL_PATH example_world)\<rparr>"]
        example_assets classify_upload_def Let_def)
       (simp add: example_world_def)
  have o: "pil_open example_world [1] = Inr gray_image
     \<and> keras_predict example_world m (processed_img example_world (convert_RGB example_world gray_image))
         = Inr (Array \<lparr>nd_shape = [1, 1], nd_data = [9/10]\<rparr>)
     \<and> nd_data \<lparr>nd_shape = [1, 1], nd_data = [9/10 :: real]\<rparr> = 9/10 # []" for m
    by (simp add: example_world_def)
  from failure_isolation [OF f] obtain m mt where
    r: "fst (cached_load_model_assets example_world initial_process) = (Some m, mt)"
    and c: "cached_assets (snd (main example_world (Some []) initial_process)) = Some (Some m, mt)"
    and l: "\<And>w2 f2 im a x xs. pil_open w2 f2 = Inr im
               \<and> keras_predict w2 m (processed_img w2 (convert_RGB w2 im)) = Inr (Array a)
               \<and> nd_data a = x # xs \<Longrightarrow>
               fst (main w2 (Some f2) (snd (main example_world (Some []) initial_process)))
                 = Inr (Classified (classify x))"
    by blast
  from r have "m = \<lparr>obj_id = 0, built = From_load_weights fallback_layers (MODEL_PATH example_world)\<rparr>"
    and "mt = Some (JObject [(''version'', JString ''1'')])"
    by (simp_all add: example_assets)
  with f c l [OF o] show ?thesis by simp
qed

section \<open>Failed loading\<close>

text \<open>The loader returns no model exactly when the metadata cannot be read, or the direct
  load and one of the two steps of the fallback fail.\<close>

lemma load_model_assets_None_iff:
  "fst (fst (load_model_assets w s)) = None \<longleftrightarrow>
     isl (json_load w (META_PATH w))
     \<or> (keras_load_model w (MODEL_PATH w) False \<noteq> None
        \<and> (keras_build w fallback_layers \<noteq> None
           \<or> keras_load_weights w fallback_layers (MODEL_PATH w) \<noteq> None))"
proof (cases "json_load w (META_PATH w)")
  case (Inl e)
  then show ?thesis by (simp add: load_model_assets_meta_fails)
next
  case (Inr meta)
  let ?s1 = "log (Json_load (META_PATH w)) (log Load_assets_body s)"
  note inner = load_model_assets_inner(1) [OF Inr, of s]
  show ?thesis
  proof (cases "keras_load_model w (MODEL_PATH w) False")
    case None
    then show ?thesis using Inr inner load_or_rebuild_direct(1) [OF None, of ?s1] by simp
  next
    case e0: (Some e0)
    show ?thesis
    proof (cases "keras_build w fallback_layers")
      case (Some e)
      then show ?thesis
        using Inr e0 inner load_or_rebuild_build_fails(1) [OF e0 Some, of ?s1] by simp
    next
      case None
      show ?thesis
      proof (cases "keras_load_weights w fallback_layers (MODEL_PATH w)")
        case (Some e)
        then show ?thesis
          using Inr e0 None inner load_or_rebuild_weights_fail(1) [OF e0 None Some, of ?s1] by simp
      next
        case lw: None
        then show ?thesis
          using Inr e0 None inner load_or_rebuild_fallback(1) [OF e0 None lw, of ?s1] by simp
      qed
    qed
  qed
qed

lemma load_model_assets_None_pair:
  "fst (fst (load_model_assets w s)) = None \<Longrightarrow> fst (load_model_assets w s) = (None, None)"
  by (auto simp: load_model_assets_def Let_def split: sum.splits prod.splits)

lemma main_no_model_calls:
  assumes "fst (fst (cached_load_model_assets w s)) = None"
  shows "fst (main w file s) = Inr No_result"
    and "trace (snd (main w file s)) = trace (snd (cached_load_model_assets w s))"
  using assms by (simp_all add: main_without_model)

text \<open>With a cached entry that has no model, no request opens an image or predicts.\<close>

lemma serve_without_model:
  assumes "cached_assets s = Some (None, mt)"
  shows "fst (serve reqs s) = replicate (length reqs) (Inr No_result)
         \<and> trace (snd (serve reqs s)) = trace s"
  using assms
proof (induction reqs arbitrary: s)
  case Nil
  then show ?case by simp
next
  case (Cons req reqs)
  obtain w "file" where req: "req = (w, file)" by (cases req)
  have hit: "cached_load_model_assets w s = ((None, mt), s)"
    using Cons.prems by (rule cached_hit)
  then have m: "main w file s = (Inr No_result, ensure_uploader_key s)"
    using main_without_model [of w s "file"] by simp
  have "cached_assets (ensure_uploader_key s) = Some (None, mt)" using Cons.prems by simp
  then have "fst (serve reqs (ensure_uploader_key s)) = replicate (length reqs) (Inr No_result)
      \<and> trace (snd (serve reqs (ensure_uploader_key s))) = trace (ensure_uploader_key s)"
    by (rule Cons.IH)
  then show ?case by (simp add: req m split_beta)
qed

text \<open>
  Claim C10. If the metadata cannot be read, or the direct load and the fallback both
  fail, the loader returns \<open>(None, None)\<close>; from then on every request of the process shows
  no result, and no image is ever opened and no prediction made. In general, a run of
  \<^verbatim>\<open>main\<close> in which the accessor returns no model skips the classification branch for
  every file.
\<close>

theorem no_inference_without_model:
  assumes "isl (json_load w (META_PATH w))
     \<or> (keras_load_model w (MODEL_PATH w) False \<noteq> None
        \<and> (keras_build w fallback_layers \<noteq> None
           \<or> keras_load_weights w fallback_layers (MODEL_PATH w) \<noteq> None))"
  shows "fst (load_model_assets w s) = (None, None)
       \<and> fst (serve ((w, file) # reqs) initial_process) = replicate (Suc (length reqs)) (Inr No_result)
       \<and> (\<forall>f. Pil_open f \<notin> set (trace (snd (serve ((w, file) # reqs) initial_process))))
       \<and> (\<forall>i t. Keras_predict i t \<notin> set (trace (snd (serve ((w, file) # reqs) initial_process))))
       \<and> (\<forall>w' file' s'. fst (fst (cached_load_model_assets w' s')) = None \<longrightarrow>
            fst (main w' file' s') = Inr No_result
            \<and> (\<forall>f. Pil_open f \<notin> set (new_calls s' (snd (main w' file' s'))))
            \<and> (\<forall>i t. Keras_predict i t \<notin> set (new_calls s' (snd (main w' file' s')))))"
proof -
  have none: "fst (load_model_assets w s) = (None, None)" for s
    using assms load_model_assets_None_iff [of w s] load_model_assets_None_pair [of w s] by blast
  let ?A = "cached_load_model_assets w initial_process"
  let ?s1 = "snd (main w file initial_process)"
  have A: "fst ?A = (None, None)"
    using none [of initial_process] by (simp add: cached_miss initial_process_def)
  have m1: "fst (main w file initial_process) = Inr No_result" "trace ?s1 = trace (snd ?A)"
    using A by (simp_all add: main_no_model_calls)
  have c1: "cached_assets ?s1 = Some (None, None)"
    using main_cached_assets [of w "file" initial_process] A by simp
  have rest: "fst (serve reqs ?s1) = replicate (length reqs) (Inr No_result)"
    "trace (snd (serve reqs ?s1)) = trace ?s1"
    using serve_without_model [OF c1, of reqs] by simp_all
  obtain tr where tr: "trace (snd ?A) = trace initial_process @ tr"
    "list_all loader_call (filter (\<lambda>c. c \<noteq> Load_assets_body) tr)"
    using cached_calls [of w initial_process] by blast
  have all: "trace (snd (serve ((w, file) # reqs) initial_process)) = tr"
    using rest(2) m1(2) tr(1) by (simp add: split_beta initial_process_def)
  have outs: "fst (serve ((w, file) # reqs) initial_process)
      = replicate (Suc (length reqs)) (Inr No_result)"
    using rest(1) m1(1) by (simp add: split_beta)
  have branch: "fst (main w' file' s') = Inr No_result
      \<and> (\<forall>f. Pil_open f \<notin> set (new_calls s' (snd (main w' file' s'))))
      \<and> (\<forall>i t. Keras_predict i t \<notin> set (new_calls s' (snd (main w' file' s'))))"
    if n: "fst (fst (cached_load_model_assets w' s')) = None" for w' file' s'
  proof -
    obtain tr' where tr': "trace (snd (cached_load_model_assets w' s')) = trace s' @ tr'"
      "list_all loader_call (filter (\<lambda>c. c \<noteq> Load_assets_body) tr')"
      using cached_calls [of w' s'] by blast
    have "new_calls s' (snd (main w' file' s')) = tr'"
      using main_no_model_calls(2) [OF n, of file'] tr'(1) by simp
    then show ?thesis
      using main_no_model_calls(1) [OF n] tr'(2) loader_call_not_open loader_call_not_predict
      by simp
  qed
  show ?thesis
    using none outs all tr(2) loader_call_not_open loader_call_not_predict branch
    by simp
qed

theorem no_inference_without_model_witness:
  "fst (load_model_assets broken_world initial_process) = (None, None)
   \<and> fst (serve [(broken_world, Some [1]), (example_world, Some [2])] initial_process)
       = [Inr No_result, Inr No_result]
   \<and> Pil_open [1] \<notin> set (trace (snd (serve [(broken_world, Some [1]), (example_world, Some [2])]
        initial_process)))"
proof -
  have "isl (json_load broken_world (META_PATH broken_world))"
    by (simp add: broken_world_def)
  then have a: "isl (json_load broken_world (META_PATH broken_world))
     \<or> (keras_load_model broken_world (MODEL_PATH broken_world) False \<noteq> None
        \<and> (keras_build broken_world fallback_layers \<noteq> None
           \<or> keras_load_weights broken_world fallback_layers (MODEL_PATH broken_world) \<noteq> None))"
    by simp
  show ?thesis
    using no_inference_without_model [OF a, of initial_process "Some [1]" "[(example_world, Some [2])]"]
    by (simp del: serve.simps add: numeral_2_eq_2)
qed

end
